theory Spec2Isabelle
  imports Main "HOL-Library.Multiset"
begin

section \<open>Configuration\<close>

text \<open>
  The process-wide constants of \<^verbatim>\<open>main.py\<close>. A \<^verbatim>\<open>datetime\<close> is a reading of the
  UTC clock, counted in whole seconds since the epoch (the resolution of a token's
  expiry claim); a \<^verbatim>\<open>timedelta\<close> is a number of seconds. Every call of
  \<^verbatim>\<open>datetime.utcnow()\<close> in the source is an argument of the function that makes it.
\<close>

type_synonym datetime = int

definition SECRET_KEY :: string where
  "SECRET_KEY = ''boicandance''"

definition ALGORITHM :: string where
  "ALGORITHM = ''HS256''"

definition ACCESS_TOKEN_EXPIRE_MINUTES :: int where
  "ACCESS_TOKEN_EXPIRE_MINUTES = 30"

definition timedelta_minutes :: "int \<Rightarrow> int" where
  "timedelta_minutes m = m * 60"

section \<open>HTTP errors\<close>

text \<open>
  \<^verbatim>\<open>HTTPException(status_code, detail, headers)\<close>. A handler that raises returns
  \<open>Inl\<close> of the exception; the store it leaves behind is returned beside it.
\<close>

datatype http_error = HTTPException nat string "(string \<times> string) list"

fun status_code :: "http_error \<Rightarrow> nat" where
  "status_code (HTTPException c d h) = c"

fun detail :: "http_error \<Rightarrow> string" where
  "detail (HTTPException c d h) = d"

text \<open>What the server answers when a handler lets any other exception escape.\<close>

definition internal_server_error :: http_error where
  "internal_server_error = HTTPException 500 ''Internal Server Error'' []"

section \<open>The token library\<close>

text \<open>
  The claims of a token are a dictionary from claim names to JSON values; the program
  stores a string under \<^verbatim>\<open>sub\<close> and the expiry under \<^verbatim>\<open>exp\<close>.
\<close>

datatype jval = JStr string | JNum int

type_synonym claims = "string \<rightharpoonup> jval"

text \<open>
  A bearer token is symbolic: either the claims signed under an algorithm with a key, or
  a string that is no token at all. A tampered or forged token is one signed with a
  key other than the server's.
\<close>

datatype token = Jwt string string claims | Garbage string

datatype jwt_error = JWTError

text \<open>
  Modelled from the spec: \<^verbatim>\<open>jose.jwt\<close> (\<^verbatim>\<open>jwt.encode\<close>, \<^verbatim>\<open>jwt.decode\<close>) is a library
  whose code is not part of the sources. Section 4.2: \<^verbatim>\<open>issue\<close> "produces a signed,
  self-contained token embedding subject and an absolute expiry timestamp"; signing
  "uses a symmetric secret".
\<close>

definition jwt_encode :: "claims \<Rightarrow> string \<Rightarrow> string \<Rightarrow> token" where
  "jwt_encode to_encode key algorithm = Jwt algorithm key to_encode"

text \<open>
  Modelled from the spec: \<^verbatim>\<open>jwt.decode\<close> is not part of the sources. Section 4.2:
  \<^verbatim>\<open>verify\<close> "checks signature integrity and that current time is before the embedded
  expiry; fails otherwise (tampered, malformed, or expired token all map to the same
  rejection)". The signature is intact when the token was signed with the key given
  and with one of the algorithms given. A token without an expiry claim does not
  expire; an expiry that is not a number, or a subject that is not a string, is
  rejected like a malformed token.
\<close>

definition jwt_decode :: "token \<Rightarrow> string \<Rightarrow> string list \<Rightarrow> datetime \<Rightarrow> jwt_error + claims" where
  "jwt_decode tok key algorithms utcnow =
     (case tok of
        Garbage s \<Rightarrow> Inl JWTError
      | Jwt alg k payload \<Rightarrow>
          if List.member algorithms alg \<and> k = key
          then (case payload ''sub'' of
                  Some (JNum n) \<Rightarrow> Inl JWTError
                | _ \<Rightarrow>
                  (case payload ''exp'' of
                     None \<Rightarrow> Inr payload
                   | Some (JStr s) \<Rightarrow> Inl JWTError
                   | Some (JNum e) \<Rightarrow> if utcnow < e then Inr payload else Inl JWTError))
          else Inl JWTError)"

section \<open>Password hashing\<close>

text \<open>
  Modelled from the spec: \<^verbatim>\<open>passlib\<close>'s \<^verbatim>\<open>CryptContext\<close> is a library whose code is
  not part of the sources. Section 4.1: the store keeps "a one-way salted hash of the
  password", and verification "compares plaintext against stored hash using the same
  hashing scheme". The hash is symbolic: the salt drawn when hashing, and the password
  it was computed from.
\<close>

datatype pwhash = Bcrypt string string

definition verify_password :: "string \<Rightarrow> pwhash \<Rightarrow> bool" where
  "verify_password plain_password hashed_password =
     (case hashed_password of Bcrypt salt p \<Rightarrow> plain_password = p)"

definition get_password_hash :: "string \<Rightarrow> string \<Rightarrow> pwhash" where
  "get_password_hash salt password = Bcrypt salt password"

section \<open>The store\<close>

text \<open>
  The three tables of \<^verbatim>\<open>main.py\<close>. A row is a record of its columns; a table is the
  list of its rows in insertion order, with the sequence that numbers its primary key.
\<close>

record user_row =
  u_id :: int
  u_username :: string
  u_hashed_password :: pwhash

record room_row =
  r_id :: int
  r_name :: string

record message_row =
  m_id :: int
  m_room_id :: int
  m_user_id :: int
  m_content :: string
  m_timestamp :: datetime

record db =
  users :: "user_row list"
  rooms :: "room_row list"
  messages :: "message_row list"
  users_id_seq :: int
  rooms_id_seq :: int
  messages_id_seq :: int

definition empty_db :: db where
  "empty_db = \<lparr>users = [], rooms = [], messages = [],
               users_id_seq = 0, rooms_id_seq = 0, messages_id_seq = 0\<rparr>"

datatype db_error = IntegrityError

text \<open>
  Modelled from the spec: the relational database behind \<^verbatim>\<open>databases.Database\<close> is
  not part of the sources. Section 6: "users(id, username unique, password_hash),
  rooms(id, name unique), messages(id, room_id\<rightarrow>rooms, user_id\<rightarrow>users, content,
  timestamp)"; ids are "unique, system-assigned". \<^verbatim>\<open>fetch_one\<close> gives the first row
  that satisfies the query or nothing, \<^verbatim>\<open>fetch_all\<close> every such row in table
  order, and an insert appends the row under the next value of the sequence and returns
  that value, unless a unique or foreign-key constraint of the table rejects it.
\<close>

definition fetch_one :: "('r \<Rightarrow> bool) \<Rightarrow> 'r list \<Rightarrow> 'r option" where
  "fetch_one wh table = find wh table"

definition fetch_all :: "('r \<Rightarrow> bool) \<Rightarrow> 'r list \<Rightarrow> 'r list" where
  "fetch_all wh table = filter wh table"

text \<open>
  Modelled from the spec: section 4.5 asks for an "ordered sequence of Message,
  ascending by timestamp" and fixes no order among rows with equal timestamps; that
  order is the engine's. \<open>tie\<close> ranks the rows as the engine happens to read them
  for this query, and \<^verbatim>\<open>order_by\<close> sorts what it read by the column.
\<close>

definition order_by :: "('r \<Rightarrow> datetime) \<Rightarrow> ('r \<Rightarrow> int) \<Rightarrow> 'r list \<Rightarrow> 'r list" where
  "order_by col tie rows = sort_key col (sort_key tie rows)"

text \<open>
  Modelled from the spec: the database driver is not part of the sources. The id
  columns are declared \<^verbatim>\<open>sqlalchemy.Integer\<close> in \<^verbatim>\<open>main.py\<close>, 32 bits wide, so
  every stored id ("unique, system-assigned") lies in that range; a query that compares
  \<^verbatim>\<open>rooms.c.id\<close> with a number outside it finds no row and is refused by the driver
  with an error.
\<close>

definition int32 :: "int \<Rightarrow> bool" where
  "int32 i = (- 2147483648 \<le> i \<and> i \<le> 2147483647)"

datatype driver_error = DataError

definition rooms_fetch_one_by_id :: "db \<Rightarrow> int \<Rightarrow> driver_error + room_row option" where
  "rooms_fetch_one_by_id d room_id =
     (case fetch_one (\<lambda>r. r_id r = room_id) (rooms d) of
        Some room \<Rightarrow> Inr (Some room)
      | None \<Rightarrow> if int32 room_id then Inr None else Inl DataError)"

definition users_insert :: "db \<Rightarrow> string \<Rightarrow> pwhash \<Rightarrow> db_error + (int \<times> db)" where
  "users_insert d username hashed_password =
     (if find (\<lambda>u. u_username u = username) (users d) \<noteq> None then Inl IntegrityError
      else let i = users_id_seq d + 1
           in Inr (i, d\<lparr>users := users d @
                         [\<lparr>u_id = i, u_username = username, u_hashed_password = hashed_password\<rparr>],
                       users_id_seq := i\<rparr>))"

definition rooms_insert :: "db \<Rightarrow> string \<Rightarrow> db_error + (int \<times> db)" where
  "rooms_insert d name =
     (if find (\<lambda>r. r_name r = name) (rooms d) \<noteq> None then Inl IntegrityError
      else let i = rooms_id_seq d + 1
           in Inr (i, d\<lparr>rooms := rooms d @ [\<lparr>r_id = i, r_name = name\<rparr>],
                       rooms_id_seq := i\<rparr>))"

definition messages_insert ::
  "db \<Rightarrow> int \<Rightarrow> int \<Rightarrow> string \<Rightarrow> datetime \<Rightarrow> db_error + (int \<times> db)" where
  "messages_insert d room_id user_id content timestamp =
     (if find (\<lambda>r. r_id r = room_id) (rooms d) = None
         \<or> find (\<lambda>u. u_id u = user_id) (users d) = None then Inl IntegrityError
      else let i = messages_id_seq d + 1
           in Inr (i, d\<lparr>messages := messages d @
                         [\<lparr>m_id = i, m_room_id = room_id, m_user_id = user_id,
                           m_content = content, m_timestamp = timestamp\<rparr>],
                       messages_id_seq := i\<rparr>))"

section \<open>Request and response models\<close>

record UserIn =
  username :: string
  password :: string

record Token =
  access_token :: token
  token_type :: string

record RoomIn =
  name :: string

text \<open>\<^verbatim>\<open>RoomOut\<close> has the columns of a room row, \<^verbatim>\<open>MessageOut\<close> those of a message row.\<close>

type_synonym RoomOut = room_row

record MessageIn =
  content :: string

type_synonym MessageOut = message_row

section \<open>Helper functions\<close>

definition get_user_by_username :: "db \<Rightarrow> string \<Rightarrow> user_row option" where
  "get_user_by_username d uname = fetch_one (\<lambda>u. u_username u = uname) (users d)"

definition authenticate_user :: "db \<Rightarrow> string \<Rightarrow> string \<Rightarrow> user_row option" where
  "authenticate_user d uname pw =
     (case get_user_by_username d uname of
        None \<Rightarrow> None
      | Some user \<Rightarrow>
          if \<not> verify_password pw (u_hashed_password user) then None else Some user)"

text \<open>
  \<^verbatim>\<open>expires_delta or timedelta(minutes=ACCESS_TOKEN_EXPIRE_MINUTES)\<close>: the default also
  replaces a delta of zero, which Python counts as false.
\<close>

definition create_access_token :: "claims \<Rightarrow> int option \<Rightarrow> datetime \<Rightarrow> token" where
  "create_access_token data expires_delta utcnow =
     (let to_encode = data;
          expire = utcnow + (case expires_delta of
                               None \<Rightarrow> timedelta_minutes ACCESS_TOKEN_EXPIRE_MINUTES
                             | Some dt \<Rightarrow> if dt = 0
                                          then timedelta_minutes ACCESS_TOKEN_EXPIRE_MINUTES
                                          else dt);
          to_encode = to_encode(''exp'' \<mapsto> JNum expire)
      in jwt_encode to_encode SECRET_KEY ALGORITHM)"

definition credentials_exception :: http_error where
  "credentials_exception =
     HTTPException 401 ''Could not validate credentials'' [(''WWW-Authenticate'', ''Bearer'')]"

text \<open>
  \<^verbatim>\<open>get_current_user\<close>, given the token and the clock reading at which the library
  checks the expiry. A subject that is not a string cannot come out of \<open>jwt_decode\<close>;
  the query for it would fail in the database driver.
\<close>

definition get_current_user :: "db \<Rightarrow> token \<Rightarrow> datetime \<Rightarrow> http_error + user_row" where
  "get_current_user d tok utcnow =
     (case jwt_decode tok SECRET_KEY [ALGORITHM] utcnow of
        Inl JWTError \<Rightarrow> Inl credentials_exception
      | Inr payload \<Rightarrow>
          (case payload ''sub'' of
             None \<Rightarrow> Inl credentials_exception
           | Some (JNum n) \<Rightarrow> Inl internal_server_error
           | Some (JStr uname) \<Rightarrow>
               (case get_user_by_username d uname of
                  None \<Rightarrow> Inl credentials_exception
                | Some user \<Rightarrow> Inr user)))"

text \<open>
  Modelled from the spec: \<^verbatim>\<open>OAuth2PasswordBearer\<close> is a library class whose code is
  not part of the sources. Section 4.3: it "extracts bearer credential from the
  request's authorization header", and section 7 maps a request without one to
  Unauthenticated. The header is \<open>None\<close> when the request has no bearer credential.
\<close>

definition oauth2_scheme :: "token option \<Rightarrow> http_error + token" where
  "oauth2_scheme authorization =
     (case authorization of
        None \<Rightarrow> Inl (HTTPException 401 ''Not authenticated'' [(''WWW-Authenticate'', ''Bearer'')])
      | Some tok \<Rightarrow> Inr tok)"

text \<open>
  \<^verbatim>\<open>current_user=Depends(get_current_user)\<close>: the dependency is resolved from the
  request before the handler's body runs, and an exception it raises is the response.
\<close>

definition Depends_get_current_user ::
  "db \<Rightarrow> token option \<Rightarrow> datetime \<Rightarrow> (user_row \<Rightarrow> (http_error + 'a) \<times> db)
     \<Rightarrow> (http_error + 'a) \<times> db" where
  "Depends_get_current_user d authorization utcnow handler =
     (case oauth2_scheme authorization of
        Inl e \<Rightarrow> (Inl e, d)
      | Inr tok \<Rightarrow>
          (case get_current_user d tok utcnow of
             Inl e \<Rightarrow> (Inl e, d)
           | Inr current_user \<Rightarrow> handler current_user))"

section \<open>Routes\<close>

text \<open>
  Each handler takes the store and returns its response, or the exception it raised,
  with the store it leaves. The salt is the one the hashing library draws.
\<close>

definition register :: "db \<Rightarrow> UserIn \<Rightarrow> string \<Rightarrow> datetime \<Rightarrow> (http_error + Token) \<times> db" where
  "register d user_in salt utcnow =
     (case get_user_by_username d (username user_in) of
        Some user \<Rightarrow> (Inl (HTTPException 400 ''Username already registered'' []), d)
      | None \<Rightarrow>
          (let hashed_password = get_password_hash salt (password user_in)
           in case users_insert d (username user_in) hashed_password of
                Inl IntegrityError \<Rightarrow> (Inl internal_server_error, d)
              | Inr (new_id, d') \<Rightarrow>
                  (let access_token =
                         create_access_token [''sub'' \<mapsto> JStr (username user_in)] None utcnow
                   in (Inr \<lparr>access_token = access_token, token_type = ''bearer''\<rparr>, d'))))"

definition login :: "db \<Rightarrow> string \<Rightarrow> string \<Rightarrow> datetime \<Rightarrow> (http_error + Token) \<times> db" where
  "login d form_username form_password utcnow =
     (case authenticate_user d form_username form_password of
        None \<Rightarrow> (Inl (HTTPException 400 ''Incorrect username or password'' []), d)
      | Some user \<Rightarrow>
          (let access_token = create_access_token [''sub'' \<mapsto> JStr (u_username user)] None utcnow
           in (Inr \<lparr>access_token = access_token, token_type = ''bearer''\<rparr>, d)))"

definition create_room :: "db \<Rightarrow> RoomIn \<Rightarrow> user_row \<Rightarrow> (http_error + RoomOut) \<times> db" where
  "create_room d room_in current_user =
     (case fetch_one (\<lambda>r. r_name r = name room_in) (rooms d) of
        Some existing \<Rightarrow> (Inl (HTTPException 400 ''Room already exists'' []), d)
      | None \<Rightarrow>
          (case rooms_insert d (name room_in) of
             Inl IntegrityError \<Rightarrow> (Inl internal_server_error, d)
           | Inr (room_id, d') \<Rightarrow> (Inr \<lparr>r_id = room_id, r_name = name room_in\<rparr>, d')))"

definition list_rooms :: "db \<Rightarrow> user_row \<Rightarrow> (http_error + RoomOut list) \<times> db" where
  "list_rooms d current_user = (Inr (fetch_all (\<lambda>r. True) (rooms d)), d)"

text \<open>
  \<^verbatim>\<open>post_message\<close> reads the clock twice: \<open>utcnow_insert\<close> is the reading stored with
  the row, \<open>utcnow_response\<close> the one put into the response. The path parameter
  \<^verbatim>\<open>room_id: int\<close> is any integer; when the driver refuses it, the exception escapes
  the handler.
\<close>

definition post_message ::
  "db \<Rightarrow> int \<Rightarrow> MessageIn \<Rightarrow> user_row \<Rightarrow> datetime \<Rightarrow> datetime
     \<Rightarrow> (http_error + MessageOut) \<times> db" where
  "post_message d room_id message_in current_user utcnow_insert utcnow_response =
     (case rooms_fetch_one_by_id d room_id of
        Inl DataError \<Rightarrow> (Inl internal_server_error, d)
      | Inr None \<Rightarrow> (Inl (HTTPException 404 ''Room not found'' []), d)
      | Inr (Some room) \<Rightarrow>
          (case messages_insert d room_id (u_id current_user) (content message_in) utcnow_insert of
             Inl IntegrityError \<Rightarrow> (Inl internal_server_error, d)
           | Inr (message_id, d') \<Rightarrow>
               (Inr \<lparr>m_id = message_id, m_room_id = room_id, m_user_id = u_id current_user,
                     m_content = content message_in, m_timestamp = utcnow_response\<rparr>, d')))"

definition list_messages ::
  "db \<Rightarrow> int \<Rightarrow> user_row \<Rightarrow> (message_row \<Rightarrow> int)
     \<Rightarrow> (http_error + MessageOut list) \<times> db" where
  "list_messages d room_id current_user tie =
     (case rooms_fetch_one_by_id d room_id of
        Inl DataError \<Rightarrow> (Inl internal_server_error, d)
      | Inr None \<Rightarrow> (Inl (HTTPException 404 ''Room not found'' []), d)
      | Inr (Some room) \<Rightarrow>
          (Inr (order_by m_timestamp tie
                  (fetch_all (\<lambda>m. m_room_id m = room_id) (messages d))), d))"

text \<open>The debug route has no dependency and no response model: it returns whole rows.\<close>

definition list_users :: "db \<Rightarrow> (http_error + user_row list) \<times> db" where
  "list_users d = (Inr (fetch_all (\<lambda>u. True) (users d)), d)"

text \<open>The protected routes as the server runs them: the dependency, then the handler.\<close>

definition POST_rooms ::
  "db \<Rightarrow> token option \<Rightarrow> datetime \<Rightarrow> RoomIn \<Rightarrow> (http_error + RoomOut) \<times> db" where
  "POST_rooms d authorization utcnow room_in =
     Depends_get_current_user d authorization utcnow (create_room d room_in)"

definition GET_rooms ::
  "db \<Rightarrow> token option \<Rightarrow> datetime \<Rightarrow> (http_error + RoomOut list) \<times> db" where
  "GET_rooms d authorization utcnow =
     Depends_get_current_user d authorization utcnow (list_rooms d)"

definition POST_rooms_messages ::
  "db \<Rightarrow> token option \<Rightarrow> datetime \<Rightarrow> int \<Rightarrow> MessageIn \<Rightarrow> datetime \<Rightarrow> datetime
     \<Rightarrow> (http_error + MessageOut) \<times> db" where
  "POST_rooms_messages d authorization utcnow room_id message_in utcnow_insert utcnow_response =
     Depends_get_current_user d authorization utcnow
       (\<lambda>current_user. post_message d room_id message_in current_user
                         utcnow_insert utcnow_response)"

definition GET_rooms_messages ::
  "db \<Rightarrow> token option \<Rightarrow> datetime \<Rightarrow> int \<Rightarrow> (message_row \<Rightarrow> int)
     \<Rightarrow> (http_error + MessageOut list) \<times> db" where
  "GET_rooms_messages d authorization utcnow room_id tie =
     Depends_get_current_user d authorization utcnow
       (\<lambda>current_user. list_messages d room_id current_user tie)"

section \<open>A run of the system\<close>

text \<open>
  The states of the scenario of section 8: alice registers at time 0 and receives
  \<open>token_A\<close>, then creates the room "general" at time 10.
\<close>

definition alice_in :: UserIn where
  "alice_in = \<lparr>username = ''alice'', password = ''pw1''\<rparr>"

definition alice :: user_row where
  "alice = \<lparr>u_id = 1, u_username = ''alice'', u_hashed_password = Bcrypt ''salt'' ''pw1''\<rparr>"

definition token_A :: token where
  "token_A = create_access_token [''sub'' \<mapsto> JStr ''alice''] None 0"

definition db_registered :: db where
  "db_registered = snd (register empty_db alice_in ''salt'' 0)"

definition db_general :: db where
  "db_general = snd (POST_rooms db_registered (Some token_A) 10 \<lparr>name = ''general''\<rparr>)"

text \<open>
  At time 20 alice posts "hi" to the room. Then either a second message follows at
  time 30, or the clock is set back and the second message is stamped 15.
\<close>

definition msg_hi :: message_row where
  "msg_hi = \<lparr>m_id = 1, m_room_id = 1, m_user_id = 1, m_content = ''hi'', m_timestamp = 20\<rparr>"

definition db_hi :: db where
  "db_hi = snd (POST_rooms_messages db_general (Some token_A) 20 1 \<lparr>content = ''hi''\<rparr> 20 20)"

definition msg_later :: message_row where
  "msg_later =
     \<lparr>m_id = 2, m_room_id = 1, m_user_id = 1, m_content = ''later'', m_timestamp = 30\<rparr>"

definition db_later :: db where
  "db_later =
     snd (POST_rooms_messages db_hi (Some token_A) 30 1 \<lparr>content = ''later''\<rparr> 30 30)"

definition msg_back :: message_row where
  "msg_back =
     \<lparr>m_id = 2, m_room_id = 1, m_user_id = 1, m_content = ''back'', m_timestamp = 15\<rparr>"

definition db_back :: db where
  "db_back =
     snd (POST_rooms_messages db_hi (Some token_A) 15 1 \<lparr>content = ''back''\<rparr> 15 15)"

text \<open>
  Or the second message follows within the same second. The engine may read the rows
  of a query in table order, as \<open>oldest_first\<close> ranks them, or the newest row first.
\<close>

definition msg_same :: message_row where
  "msg_same =
     \<lparr>m_id = 2, m_room_id = 1, m_user_id = 1, m_content = ''same'', m_timestamp = 20\<rparr>"

definition db_same :: db where
  "db_same =
     snd (POST_rooms_messages db_hi (Some token_A) 20 1 \<lparr>content = ''same''\<rparr> 20 20)"

definition oldest_first :: "message_row \<Rightarrow> int" where
  "oldest_first m = m_id m"

definition newest_first :: "message_row \<Rightarrow> int" where
  "newest_first m = - m_id m"

text \<open>
  Two tokens signed with the server's key that no route issues: one without a subject,
  one for a user who never registered.
\<close>

definition token_no_sub :: token where
  "token_no_sub = jwt_encode [''exp'' \<mapsto> JNum 1800] SECRET_KEY ALGORITHM"

definition token_bob :: token where
  "token_bob = create_access_token [''sub'' \<mapsto> JStr ''bob''] None 0"

section \<open>Lookups and the token check\<close>

lemma find_None_image: "(find (\<lambda>x. f x = k) xs = None) = (k \<notin> f ` set xs)"
  by (auto simp: find_None_iff)

lemma get_user_by_username_None:
  "(get_user_by_username d s = None) = (s \<notin> u_username ` set (users d))"
  by (simp add: get_user_by_username_def fetch_one_def find_None_image)

lemma get_user_by_username_Some:
  "get_user_by_username d s = Some user \<Longrightarrow> user \<in> set (users d) \<and> u_username user = s"
  by (auto simp: get_user_by_username_def fetch_one_def find_Some_iff)

lemma issued_token_decode:
  "jwt_decode (create_access_token [''sub'' \<mapsto> JStr s] None issued) SECRET_KEY [ALGORITHM] utcnow =
     (if utcnow < issued + 30 * 60
      then Inr [''sub'' \<mapsto> JStr s, ''exp'' \<mapsto> JNum (issued + 30 * 60)]
      else Inl JWTError)"
  by (simp add: jwt_decode_def create_access_token_def jwt_encode_def
        timedelta_minutes_def ACCESS_TOKEN_EXPIRE_MINUTES_def)

lemma issued_token_user:
  "get_current_user d (create_access_token [''sub'' \<mapsto> JStr s] None issued) utcnow =
     (if utcnow < issued + 30 * 60
      then (case get_user_by_username d s of
              None \<Rightarrow> Inl credentials_exception
            | Some user \<Rightarrow> Inr user)
      else Inl credentials_exception)"
  by (simp add: get_current_user_def issued_token_decode)

text \<open>The library never hands out a subject that is not a string.\<close>

lemma jwt_decode_sub:
  "jwt_decode tok key algs utcnow = Inr payload \<Longrightarrow> payload ''sub'' \<noteq> Some (JNum n)"
  by (auto simp: jwt_decode_def split: token.splits if_splits option.splits jval.splits)

text \<open>So the only error of the dependency is the credentials exception.\<close>

lemma get_current_user_error:
  "get_current_user d tok utcnow = Inl e \<Longrightarrow> e = credentials_exception"
  by (auto simp: get_current_user_def
      split: sum.splits jwt_error.splits option.splits jval.splits dest: jwt_decode_sub)

lemma get_current_user_member:
  "get_current_user d tok utcnow = Inr user \<Longrightarrow> user \<in> set (users d)"
  by (auto simp: get_current_user_def
      split: sum.splits jwt_error.splits option.splits jval.splits
      dest: get_user_by_username_Some)

section \<open>The states of the run\<close>

lemma db_registered_eq:
  "db_registered = \<lparr>users = [alice], rooms = [], messages = [],
                     users_id_seq = 1, rooms_id_seq = 0, messages_id_seq = 0\<rparr>"
  by (simp add: db_registered_def register_def alice_in_def alice_def empty_db_def
        get_user_by_username_def fetch_one_def users_insert_def get_password_hash_def)

lemma register_alice:
  "register empty_db alice_in ''salt'' 0 =
     (Inr \<lparr>access_token = token_A, token_type = ''bearer''\<rparr>, db_registered)"
  by (simp add: db_registered_def register_def alice_in_def alice_def empty_db_def token_A_def
        get_user_by_username_def fetch_one_def users_insert_def get_password_hash_def)

lemma token_A_user:
  "users d = [alice] \<Longrightarrow> utcnow < 1800 \<Longrightarrow> get_current_user d token_A utcnow = Inr alice"
  by (simp add: token_A_def issued_token_user get_user_by_username_def fetch_one_def alice_def)

lemma db_general_eq:
  "db_general = \<lparr>users = [alice], rooms = [\<lparr>r_id = 1, r_name = ''general''\<rparr>], messages = [],
                  users_id_seq = 1, rooms_id_seq = 1, messages_id_seq = 0\<rparr>"
  by (simp add: db_general_def POST_rooms_def Depends_get_current_user_def oauth2_scheme_def
        token_A_user db_registered_eq create_room_def fetch_one_def rooms_insert_def)

section \<open>Token round trip\<close>

text \<open>
  C1. For every subject \<open>s\<close>, the token issued for \<open>s\<close> at time \<open>issued\<close> carries the
  expiry \<open>issued + 30 * 60\<close>. Checked before that expiry it decodes to a payload whose
  subject is \<open>s\<close>, and \<open>get_current_user\<close> resolves it to the user registered under
  \<open>s\<close> (the credentials exception when there is none). Checked after the expiry it is
  rejected, and \<open>get_current_user\<close> raises the credentials exception.
\<close>

theorem issue_verify_roundtrip:
  "(utcnow < issued + 30 * 60 \<longrightarrow>
      (\<exists>payload.
         jwt_decode (create_access_token [''sub'' \<mapsto> JStr s] None issued)
           SECRET_KEY [ALGORITHM] utcnow = Inr payload
         \<and> payload ''sub'' = Some (JStr s)
         \<and> payload ''exp'' = Some (JNum (issued + 30 * 60)))
      \<and> get_current_user d (create_access_token [''sub'' \<mapsto> JStr s] None issued) utcnow =
          (case get_user_by_username d s of
             None \<Rightarrow> Inl credentials_exception
           | Some user \<Rightarrow> Inr user))
   \<and> (issued + 30 * 60 < utcnow \<longrightarrow>
        jwt_decode (create_access_token [''sub'' \<mapsto> JStr s] None issued)
          SECRET_KEY [ALGORITHM] utcnow = Inl JWTError
        \<and> get_current_user d (create_access_token [''sub'' \<mapsto> JStr s] None issued) utcnow =
            Inl credentials_exception)"
  by (simp add: issued_token_decode issued_token_user)

theorem issue_verify_roundtrip_witness:
  "(100 :: int) < 0 + 30 * 60
   \<and> get_current_user db_registered token_A 100 = Inr alice
   \<and> u_username alice = ''alice''
   \<and> (0 :: int) + 30 * 60 < 1801
   \<and> get_current_user db_registered token_A 1801 = Inl credentials_exception"
  using issue_verify_roundtrip [of 100 0 "''alice''" db_registered]
    issue_verify_roundtrip [of 1801 0 "''alice''" db_registered]
  by (simp add: token_A_def db_registered_eq get_user_by_username_def fetch_one_def alice_def)

section \<open>Posting a message\<close>

lemma post_message_success:
  assumes "post_message d room_id message_in current_user t_ins t_resp = (Inr out, d')"
  shows "m_user_id out = u_id current_user
         \<and> m_room_id out = room_id \<and> m_content out = content message_in
         \<and> m_timestamp out = t_resp
         \<and> m_id out = messages_id_seq d + 1
         \<and> d' = d\<lparr>messages := messages d @
                     [\<lparr>m_id = m_id out, m_room_id = room_id, m_user_id = u_id current_user,
                       m_content = content message_in, m_timestamp = t_ins\<rparr>],
                   messages_id_seq := m_id out\<rparr>"
  using assms
  by (auto simp: post_message_def messages_insert_def Let_def
      split: option.splits if_splits sum.splits db_error.splits driver_error.splits)

lemma Depends_success:
  assumes "Depends_get_current_user d authorization utcnow handler = (Inr out, d')"
  shows "\<exists>tok current_user. authorization = Some tok
           \<and> get_current_user d tok utcnow = Inr current_user
           \<and> handler current_user = (Inr out, d')"
  using assms
  by (auto simp: Depends_get_current_user_def oauth2_scheme_def split: option.splits sum.splits)

text \<open>
  C2. When a post-message request succeeds, its bearer token resolved to a user through
  \<open>get_current_user\<close>, and the \<open>user_id\<close> of the message returned and of the row
  appended to the messages table is that user's id. The same holds for every other
  successful request on the same store with the same token, whatever its room id,
  message body and clock readings: the path and the body do not determine the author.
\<close>

theorem post_message_user_id_is_caller:
  assumes "POST_rooms_messages d authorization utcnow room_id message_in t_ins t_resp = (Inr out, d')"
  shows "\<exists>tok current_user.
           authorization = Some tok
           \<and> get_current_user d tok utcnow = Inr current_user
           \<and> m_user_id out = u_id current_user
           \<and> messages d' = messages d @
                 [\<lparr>m_id = m_id out, m_room_id = room_id, m_user_id = u_id current_user,
                   m_content = content message_in, m_timestamp = t_ins\<rparr>]
           \<and> (\<forall>room_id2 message_in2 t_ins2 t_resp2 out2 d2.
                 POST_rooms_messages d authorization utcnow room_id2 message_in2 t_ins2 t_resp2
                   = (Inr out2, d2)
                 \<longrightarrow> m_user_id out2 = u_id current_user
                     \<and> m_user_id (last (messages d2)) = u_id current_user)"
proof -
  from assms obtain tok current_user where
    a: "authorization = Some tok" and
    g: "get_current_user d tok utcnow = Inr current_user" and
    p: "post_message d room_id message_in current_user t_ins t_resp = (Inr out, d')"
    unfolding POST_rooms_messages_def by (blast dest: Depends_success)
  from post_message_success [OF p]
  have o: "m_user_id out = u_id current_user" by simp
  from post_message_success [OF p]
  have "d' = d\<lparr>messages := messages d @
                     [\<lparr>m_id = m_id out, m_room_id = room_id, m_user_id = u_id current_user,
                       m_content = content message_in, m_timestamp = t_ins\<rparr>],
                   messages_id_seq := m_id out\<rparr>" by blast
  then have m: "messages d' = messages d @
                 [\<lparr>m_id = m_id out, m_room_id = room_id, m_user_id = u_id current_user,
                   m_content = content message_in, m_timestamp = t_ins\<rparr>]"
    by (rule ssubst) simp
  have r: "m_user_id out2 = u_id current_user
             \<and> m_user_id (last (messages d2)) = u_id current_user"
    if "POST_rooms_messages d authorization utcnow room_id2 message_in2 t_ins2 t_resp2
          = (Inr out2, d2)"
    for room_id2 message_in2 t_ins2 t_resp2 out2 d2
  proof -
    from that a g
    have "post_message d room_id2 message_in2 current_user t_ins2 t_resp2 = (Inr out2, d2)"
      by (simp add: POST_rooms_messages_def Depends_get_current_user_def oauth2_scheme_def)
    from post_message_success [OF this]
    have "m_user_id out2 = u_id current_user" and
      "d2 = d\<lparr>messages := messages d @
                     [\<lparr>m_id = m_id out2, m_room_id = room_id2, m_user_id = u_id current_user,
                       m_content = content message_in2, m_timestamp = t_ins2\<rparr>],
                   messages_id_seq := m_id out2\<rparr>" by blast+
    then show ?thesis by (simp del: db.simps)
  qed
  from a g o m r show ?thesis by blast
qed

lemma post_message_existing_room:
  assumes "room_id \<in> r_id ` set (rooms d)" and "current_user \<in> set (users d)"
  shows "post_message d room_id message_in current_user t_ins t_resp =
           (Inr \<lparr>m_id = messages_id_seq d + 1, m_room_id = room_id, m_user_id = u_id current_user,
                  m_content = content message_in, m_timestamp = t_resp\<rparr>,
            d\<lparr>messages := messages d @
                  [\<lparr>m_id = messages_id_seq d + 1, m_room_id = room_id,
                    m_user_id = u_id current_user,
                    m_content = content message_in, m_timestamp = t_ins\<rparr>],
               messages_id_seq := messages_id_seq d + 1\<rparr>)"
proof -
  from assms(1) obtain room where "fetch_one (\<lambda>r. r_id r = room_id) (rooms d) = Some room"
    by (cases "fetch_one (\<lambda>r. r_id r = room_id) (rooms d)")
       (auto simp: fetch_one_def find_None_image)
  moreover from assms(1) have "find (\<lambda>r. r_id r = room_id) (rooms d) \<noteq> None"
    by (simp add: find_None_image)
  moreover from assms(2) have "find (\<lambda>u. u_id u = u_id current_user) (users d) \<noteq> None"
    by (simp add: find_None_image)
  ultimately show ?thesis
    by (simp add: post_message_def rooms_fetch_one_by_id_def messages_insert_def Let_def)
qed

lemma Depends_authenticated:
  "authorization = Some tok \<Longrightarrow> get_current_user d tok utcnow = Inr current_user \<Longrightarrow>
   Depends_get_current_user d authorization utcnow handler = handler current_user"
  by (simp add: Depends_get_current_user_def oauth2_scheme_def)

lemma post_hi:
  "POST_rooms_messages db_general (Some token_A) 20 1 \<lparr>content = ''hi''\<rparr> 20 20 = (Inr msg_hi, db_hi)"
  by (simp add: db_hi_def msg_hi_def POST_rooms_messages_def Depends_authenticated [OF refl token_A_user]
      db_general_eq post_message_def rooms_fetch_one_by_id_def int32_def fetch_one_def messages_insert_def alice_def)

lemma db_hi_eq:
  "db_hi = \<lparr>users = [alice], rooms = [\<lparr>r_id = 1, r_name = ''general''\<rparr>], messages = [msg_hi],
             users_id_seq = 1, rooms_id_seq = 1, messages_id_seq = 1\<rparr>"
  by (simp add: db_hi_def msg_hi_def POST_rooms_messages_def Depends_authenticated [OF refl token_A_user]
      db_general_eq post_message_def rooms_fetch_one_by_id_def int32_def fetch_one_def messages_insert_def alice_def)

lemma db_later_eq:
  "db_later = \<lparr>users = [alice], rooms = [\<lparr>r_id = 1, r_name = ''general''\<rparr>],
                messages = [msg_hi, msg_later],
                users_id_seq = 1, rooms_id_seq = 1, messages_id_seq = 2\<rparr>"
  by (simp add: db_later_def msg_later_def POST_rooms_messages_def Depends_authenticated [OF refl token_A_user]
      db_hi_eq post_message_def rooms_fetch_one_by_id_def int32_def fetch_one_def messages_insert_def alice_def)

lemma db_back_eq:
  "db_back = \<lparr>users = [alice], rooms = [\<lparr>r_id = 1, r_name = ''general''\<rparr>],
               messages = [msg_hi, msg_back],
               users_id_seq = 1, rooms_id_seq = 1, messages_id_seq = 2\<rparr>"
  by (simp add: db_back_def msg_back_def POST_rooms_messages_def Depends_authenticated [OF refl token_A_user]
      db_hi_eq post_message_def rooms_fetch_one_by_id_def int32_def fetch_one_def messages_insert_def alice_def)

theorem post_message_user_id_is_caller_witness:
  "POST_rooms_messages db_general (Some token_A) 20 1 \<lparr>content = ''hi''\<rparr> 20 20 = (Inr msg_hi, db_hi)
   \<and> get_current_user db_general token_A 20 = Inr alice
   \<and> m_user_id msg_hi = u_id alice
   \<and> messages db_hi = messages db_general @ [msg_hi]"
proof -
  have g: "get_current_user db_general token_A 20 = Inr alice"
    by (simp add: token_A_user db_general_eq)
  from post_message_user_id_is_caller [OF post_hi] g
  have "m_user_id msg_hi = u_id alice" by auto
  moreover have "messages db_hi = messages db_general @ [msg_hi]"
    by (simp add: db_hi_eq db_general_eq)
  ultimately show ?thesis
    using g post_hi by blast
qed

section \<open>Requests that do not authenticate\<close>

text \<open>
  C9. A request to a protected route (create room, list rooms, post message, list
  messages) that carries no bearer token, or one the token library rejects, fails with
  a 401 error, and the store is the one before the request.
\<close>

theorem unauthenticated_request_rejected:
  assumes "authorization = None
           \<or> (\<exists>tok. authorization = Some tok
                 \<and> jwt_decode tok SECRET_KEY [ALGORITHM] utcnow = Inl JWTError)"
  shows "\<exists>e. status_code e = 401
           \<and> POST_rooms d authorization utcnow room_in = (Inl e, d)
           \<and> GET_rooms d authorization utcnow = (Inl e, d)
           \<and> POST_rooms_messages d authorization utcnow room_id message_in t_ins t_resp
               = (Inl e, d)
           \<and> GET_rooms_messages d authorization utcnow room_id tie = (Inl e, d)"
  using assms
  by (auto simp: POST_rooms_def GET_rooms_def POST_rooms_messages_def GET_rooms_messages_def
        Depends_get_current_user_def oauth2_scheme_def get_current_user_def
        credentials_exception_def)

theorem unauthenticated_request_rejected_witness:
  "jwt_decode (Garbage ''abc'') SECRET_KEY [ALGORITHM] 20 = Inl JWTError
   \<and> POST_rooms db_hi (Some (Garbage ''abc'')) 20 \<lparr>name = ''lobby''\<rparr>
       = (Inl credentials_exception, db_hi)
   \<and> GET_rooms db_hi (Some (Garbage ''abc'')) 20 = (Inl credentials_exception, db_hi)
   \<and> POST_rooms_messages db_hi (Some (Garbage ''abc'')) 20 1 \<lparr>content = ''hi''\<rparr> 20 20
       = (Inl credentials_exception, db_hi)
   \<and> GET_rooms_messages db_hi (Some (Garbage ''abc'')) 20 1 oldest_first
       = (Inl credentials_exception, db_hi)
   \<and> status_code credentials_exception = 401
   \<and> status_code (HTTPException 401 ''Not authenticated'' [(''WWW-Authenticate'', ''Bearer'')]) = 401
   \<and> GET_rooms db_hi None 20
       = (Inl (HTTPException 401 ''Not authenticated'' [(''WWW-Authenticate'', ''Bearer'')]), db_hi)"
proof -
  have j: "jwt_decode (Garbage ''abc'') SECRET_KEY [ALGORITHM] 20 = Inl JWTError"
    by (simp add: jwt_decode_def)
  have g: "get_current_user db_hi (Garbage ''abc'') 20 = Inl credentials_exception"
    by (simp add: get_current_user_def j)
  from unauthenticated_request_rejected
         [of "Some (Garbage ''abc'')" 20 db_hi "\<lparr>name = ''lobby''\<rparr>" 1 "\<lparr>content = ''hi''\<rparr>" 20 20
            oldest_first] j
  obtain e where e:
    "POST_rooms db_hi (Some (Garbage ''abc'')) 20 \<lparr>name = ''lobby''\<rparr> = (Inl e, db_hi)"
    "GET_rooms db_hi (Some (Garbage ''abc'')) 20 = (Inl e, db_hi)"
    "POST_rooms_messages db_hi (Some (Garbage ''abc'')) 20 1 \<lparr>content = ''hi''\<rparr> 20 20
       = (Inl e, db_hi)"
    "GET_rooms_messages db_hi (Some (Garbage ''abc'')) 20 1 oldest_first = (Inl e, db_hi)"
    by auto
  from e(2) g have "e = credentials_exception"
    by (simp add: GET_rooms_def Depends_get_current_user_def oauth2_scheme_def)
  moreover
  from unauthenticated_request_rejected
         [of None 20 db_hi "\<lparr>name = ''lobby''\<rparr>" 1 "\<lparr>content = ''hi''\<rparr>" 20 20]
  obtain e' where "GET_rooms db_hi None 20 = (Inl e', db_hi)" by auto
  then have "GET_rooms db_hi None 20
       = (Inl (HTTPException 401 ''Not authenticated'' [(''WWW-Authenticate'', ''Bearer'')]), db_hi)"
    by (simp add: GET_rooms_def Depends_get_current_user_def oauth2_scheme_def)
  ultimately show ?thesis using e j
    by (simp add: credentials_exception_def)
qed

text \<open>
  C10. A token that the library accepts as signed with the server's key and unexpired,
  whose payload has no subject or whose subject names no stored user, makes
  \<open>get_current_user\<close> raise the credentials exception, the same error a malformed
  token produces.
\<close>

theorem signed_token_without_user_rejected:
  assumes "jwt_decode tok SECRET_KEY [ALGORITHM] utcnow = Inr payload"
    and "payload ''sub'' = None
         \<or> (\<exists>uname. payload ''sub'' = Some (JStr uname) \<and> uname \<notin> u_username ` set (users d))"
  shows "get_current_user d tok utcnow = Inl credentials_exception
         \<and> get_current_user d (Garbage g) utcnow = get_current_user d tok utcnow"
proof -
  from assms(2) have "get_current_user d tok utcnow = Inl credentials_exception"
  proof
    assume "payload ''sub'' = None"
    with assms(1) show ?thesis by (simp add: get_current_user_def)
  next
    assume "\<exists>uname. payload ''sub'' = Some (JStr uname) \<and> uname \<notin> u_username ` set (users d)"
    then obtain uname where s: "payload ''sub'' = Some (JStr uname)"
      and "uname \<notin> u_username ` set (users d)" by blast
    then have "get_user_by_username d uname = None"
      by (simp add: get_user_by_username_None)
    with assms(1) s show ?thesis by (simp add: get_current_user_def)
  qed
  moreover have "get_current_user d (Garbage g) utcnow = Inl credentials_exception"
    by (simp add: get_current_user_def jwt_decode_def)
  ultimately show ?thesis by simp
qed

theorem signed_token_without_user_rejected_witness:
  "jwt_decode token_no_sub SECRET_KEY [ALGORITHM] 20 = Inr [''exp'' \<mapsto> JNum 1800]
   \<and> get_current_user db_registered token_no_sub 20 = Inl credentials_exception
   \<and> jwt_decode token_bob SECRET_KEY [ALGORITHM] 20
       = Inr [''sub'' \<mapsto> JStr ''bob'', ''exp'' \<mapsto> JNum (0 + 30 * 60)]
   \<and> ''bob'' \<notin> u_username ` set (users db_registered)
   \<and> get_current_user db_registered token_bob 20 = Inl credentials_exception
   \<and> get_current_user db_registered (Garbage ''abc'') 20 = Inl credentials_exception"
proof -
  have a: "jwt_decode token_no_sub SECRET_KEY [ALGORITHM] 20 = Inr [''exp'' \<mapsto> JNum 1800]"
    by (simp add: token_no_sub_def jwt_encode_def jwt_decode_def)
  have b: "jwt_decode token_bob SECRET_KEY [ALGORITHM] 20
       = Inr [''sub'' \<mapsto> JStr ''bob'', ''exp'' \<mapsto> JNum (0 + 30 * 60)]"
    by (simp add: token_bob_def issued_token_decode)
  have c: "''bob'' \<notin> u_username ` set (users db_registered)"
    by (simp add: db_registered_eq alice_def)
  from signed_token_without_user_rejected [OF a, of db_registered "''abc''"]
  have "get_current_user db_registered token_no_sub 20 = Inl credentials_exception" by simp
  moreover
  from signed_token_without_user_rejected [OF b, of db_registered "''abc''"] c
  have "get_current_user db_registered token_bob 20 = Inl credentials_exception
        \<and> get_current_user db_registered (Garbage ''abc'') 20 = Inl credentials_exception"
    by simp
  ultimately show ?thesis using a b c by blast
qed

section \<open>Registration\<close>

lemma register_taken:
  "username user_in \<in> u_username ` set (users d) \<Longrightarrow>
   register d user_in salt utcnow = (Inl (HTTPException 400 ''Username already registered'' []), d)"
  by (cases "get_user_by_username d (username user_in)")
     (simp_all add: register_def get_user_by_username_None)

lemma register_success_users:
  "register d user_in salt utcnow = (Inr tok, d') \<Longrightarrow>
   users d' = users d @ [\<lparr>u_id = users_id_seq d + 1, u_username = username user_in,
                           u_hashed_password = Bcrypt salt (password user_in)\<rparr>]"
  by (auto simp: register_def users_insert_def Let_def get_password_hash_def
      split: option.splits if_splits)

text \<open>
  C5. When a user with the username of the request is stored, \<open>register\<close> fails with
  the 400 error "Username already registered" for any password, and the store is
  unchanged. After a successful registration, registering the same username again,
  with any password, fails in this way.
\<close>

theorem register_duplicate_username:
  "(username user_in \<in> u_username ` set (users d) \<longrightarrow>
      register d user_in salt utcnow
        = (Inl (HTTPException 400 ''Username already registered'' []), d))
   \<and> (register d user_in salt utcnow = (Inr tok, d') \<longrightarrow>
        register d' \<lparr>username = username user_in, password = password2\<rparr> salt2 utcnow2
          = (Inl (HTTPException 400 ''Username already registered'' []), d'))"
proof (intro conjI impI)
  assume "username user_in \<in> u_username ` set (users d)"
  then show "register d user_in salt utcnow
        = (Inl (HTTPException 400 ''Username already registered'' []), d)"
    by (rule register_taken)
next
  assume "register d user_in salt utcnow = (Inr tok, d')"
  from register_success_users [OF this]
  have "username \<lparr>username = username user_in, password = password2\<rparr>
          \<in> u_username ` set (users d')"
    by simp
  then show "register d' \<lparr>username = username user_in, password = password2\<rparr> salt2 utcnow2
          = (Inl (HTTPException 400 ''Username already registered'' []), d')"
    by (rule register_taken)
qed

theorem register_duplicate_username_witness:
  "username alice_in \<in> u_username ` set (users db_hi)
   \<and> register db_hi alice_in ''pepper'' 40
       = (Inl (HTTPException 400 ''Username already registered'' []), db_hi)
   \<and> register empty_db alice_in ''salt'' 0
       = (Inr \<lparr>access_token = token_A, token_type = ''bearer''\<rparr>, db_registered)
   \<and> register db_registered \<lparr>username = ''alice'', password = ''pw2''\<rparr> ''pepper'' 5
       = (Inl (HTTPException 400 ''Username already registered'' []), db_registered)"
proof -
  have a: "username alice_in \<in> u_username ` set (users db_hi)"
    by (simp add: db_hi_eq alice_def alice_in_def)
  have u: "username alice_in = ''alice''" by (simp add: alice_in_def)
  from register_duplicate_username
         [of alice_in db_hi "''pepper''" 40 "\<lparr>access_token = token_A, token_type = ''bearer''\<rparr>"
            db_hi "''pw2''" "''pepper''" 41] a
  have "register db_hi alice_in ''pepper'' 40
       = (Inl (HTTPException 400 ''Username already registered'' []), db_hi)" by blast
  moreover
  from register_duplicate_username
         [of alice_in empty_db "''salt''" 0 "\<lparr>access_token = token_A, token_type = ''bearer''\<rparr>"
            db_registered "''pw2''" "''pepper''" 5] register_alice
  have "register db_registered \<lparr>username = ''alice'', password = ''pw2''\<rparr> ''pepper'' 5
       = (Inl (HTTPException 400 ''Username already registered'' []), db_registered)"
    by (simp add: u)
  ultimately show ?thesis using a register_alice by blast
qed

section \<open>Posting to a room that does not exist\<close>

lemma rooms_fetch_one_by_id_missing:
  "room_id \<notin> r_id ` set (rooms d) \<Longrightarrow>
   rooms_fetch_one_by_id d room_id = (if int32 room_id then Inr None else Inl DataError)"
  by (simp add: rooms_fetch_one_by_id_def fetch_one_def find_None_image [symmetric])

lemma post_message_missing:
  "room_id \<notin> r_id ` set (rooms d) \<Longrightarrow>
   post_message d room_id message_in current_user t_ins t_resp =
     (Inl (if int32 room_id then HTTPException 404 ''Room not found'' []
           else internal_server_error), d)"
  by (simp add: post_message_def rooms_fetch_one_by_id_missing)

text \<open>
  C4, as amended. A post-message request for a room id that names no stored room fails
  and never changes the store. It fails with the 404 error "Room not found" when its
  bearer token resolves to a user and the room id lies within the 32 bits of the id
  column, and with a 401 error when it carries no token or one that does not resolve:
  the dependency is resolved before the handler looks for the room.
\<close>

theorem post_message_missing_room:
  assumes "room_id \<notin> r_id ` set (rooms d)"
  shows "\<exists>e. POST_rooms_messages d authorization utcnow room_id message_in t_ins t_resp = (Inl e, d)
           \<and> (if \<exists>tok current_user. authorization = Some tok
                                    \<and> get_current_user d tok utcnow = Inr current_user
               then int32 room_id \<longrightarrow> e = HTTPException 404 ''Room not found'' []
               else status_code e = 401)"
proof (cases "\<exists>tok current_user. authorization = Some tok
                                    \<and> get_current_user d tok utcnow = Inr current_user")
  case True
  then obtain tok current_user where "authorization = Some tok"
    and "get_current_user d tok utcnow = Inr current_user" by blast
  then have "POST_rooms_messages d authorization utcnow room_id message_in t_ins t_resp
               = (Inl (if int32 room_id then HTTPException 404 ''Room not found'' []
                       else internal_server_error), d)"
    by (simp add: POST_rooms_messages_def Depends_authenticated post_message_missing [OF assms])
  with True show ?thesis by simp
next
  case False
  show ?thesis
  proof (cases authorization)
    case None
    with False show ?thesis
      by (simp add: POST_rooms_messages_def Depends_get_current_user_def oauth2_scheme_def)
  next
    case (Some tok)
    with False obtain e where e: "get_current_user d tok utcnow = Inl e"
      by (cases "get_current_user d tok utcnow") auto
    from get_current_user_error [OF e] have "status_code e = 401"
      by (simp add: credentials_exception_def)
    with False Some e show ?thesis
      by (simp add: POST_rooms_messages_def Depends_get_current_user_def oauth2_scheme_def)
  qed
qed

theorem post_message_missing_room_witness:
  "7 \<notin> r_id ` set (rooms db_hi)
   \<and> int32 7
   \<and> get_current_user db_hi token_A 25 = Inr alice
   \<and> POST_rooms_messages db_hi (Some token_A) 25 7 \<lparr>content = ''hi''\<rparr> 25 25
       = (Inl (HTTPException 404 ''Room not found'' []), db_hi)
   \<and> status_code (HTTPException 401 ''Not authenticated'' [(''WWW-Authenticate'', ''Bearer'')]) = 401
   \<and> POST_rooms_messages db_hi None 25 7 \<lparr>content = ''hi''\<rparr> 25 25
       = (Inl (HTTPException 401 ''Not authenticated'' [(''WWW-Authenticate'', ''Bearer'')]), db_hi)"
proof -
  have r: "7 \<notin> r_id ` set (rooms db_hi)" by (simp add: db_hi_eq)
  have g: "get_current_user db_hi token_A 25 = Inr alice"
    by (simp add: token_A_user db_hi_eq)
  have i: "int32 7" by (simp add: int32_def)
  from post_message_missing_room [OF r, of "Some token_A" 25 "\<lparr>content = ''hi''\<rparr>" 25 25] g i
  have a: "POST_rooms_messages db_hi (Some token_A) 25 7 \<lparr>content = ''hi''\<rparr> 25 25
       = (Inl (HTTPException 404 ''Room not found'' []), db_hi)"
    by auto
  from post_message_missing_room [OF r, of None 25 "\<lparr>content = ''hi''\<rparr>" 25 25]
  obtain e where "POST_rooms_messages db_hi None 25 7 \<lparr>content = ''hi''\<rparr> 25 25 = (Inl e, db_hi)"
    by blast
  then have b: "POST_rooms_messages db_hi None 25 7 \<lparr>content = ''hi''\<rparr> 25 25
       = (Inl (HTTPException 401 ''Not authenticated'' [(''WWW-Authenticate'', ''Bearer'')]), db_hi)"
    by (simp add: POST_rooms_messages_def Depends_get_current_user_def oauth2_scheme_def)
  from r i g a b show ?thesis by simp
qed

text \<open>
  C4 as stated fails on a request whose token is no token: with no room stored, the
  answer is the 401 credentials exception, not 404.
\<close>

theorem post_message_missing_room_invalid_token:
  "rooms db_registered = []
   \<and> POST_rooms_messages db_registered (Some (Garbage ''abc'')) 20 1 \<lparr>content = ''hi''\<rparr> 20 20
       = (Inl credentials_exception, db_registered)
   \<and> status_code credentials_exception = 401
   \<and> status_code credentials_exception \<noteq> 404"
  by (simp add: db_registered_eq POST_rooms_messages_def Depends_get_current_user_def
        oauth2_scheme_def get_current_user_def jwt_decode_def credentials_exception_def)

section \<open>The content of a message\<close>

text \<open>
  C8, as amended. A post-message request by an authenticated caller to an existing room
  succeeds for every content string, and the row appended to the messages table carries
  exactly that string: the content is not checked, the empty string included.
\<close>

theorem post_message_stores_content_as_sent:
  assumes "room_id \<in> r_id ` set (rooms d)"
    and "authorization = Some tok"
    and "get_current_user d tok utcnow = Inr current_user"
  shows "\<exists>out d'.
           POST_rooms_messages d authorization utcnow room_id message_in t_ins t_resp = (Inr out, d')
           \<and> m_content out = content message_in
           \<and> messages d' = messages d @
                 [\<lparr>m_id = m_id out, m_room_id = room_id, m_user_id = u_id current_user,
                   m_content = content message_in, m_timestamp = t_ins\<rparr>]"
  using assms(2,3)
  by (simp add: POST_rooms_messages_def Depends_authenticated
        post_message_existing_room [OF assms(1) get_current_user_member [OF assms(3)]])

theorem post_message_stores_content_as_sent_witness:
  "1 \<in> r_id ` set (rooms db_general)
   \<and> get_current_user db_general token_A 20 = Inr alice
   \<and> content \<lparr>content = ''hi''\<rparr> = ''hi''
   \<and> POST_rooms_messages db_general (Some token_A) 20 1 \<lparr>content = ''hi''\<rparr> 20 20
       = (Inr msg_hi, db_hi)
   \<and> m_content msg_hi = ''hi''
   \<and> messages db_hi = [msg_hi]"
proof -
  have r: "1 \<in> r_id ` set (rooms db_general)" by (simp add: db_general_eq)
  have g: "get_current_user db_general token_A 20 = Inr alice"
    by (simp add: token_A_user db_general_eq)
  from post_message_stores_content_as_sent [OF r refl g, of "\<lparr>content = ''hi''\<rparr>" 20 20] post_hi
  have "m_content msg_hi = ''hi''" by auto
  moreover have "messages db_hi = [msg_hi]" by (simp add: db_hi_eq)
  ultimately show ?thesis using r g post_hi by simp
qed

text \<open>
  C8 as stated fails: alice's request with the empty string as content succeeds and
  stores a message whose content is empty.
\<close>

theorem post_message_empty_content_stored:
  "content \<lparr>content = ''''\<rparr> = ''''
   \<and> fst (POST_rooms_messages db_general (Some token_A) 20 1 \<lparr>content = ''''\<rparr> 20 20)
       = Inr \<lparr>m_id = 1, m_room_id = 1, m_user_id = 1, m_content = '''', m_timestamp = 20\<rparr>
   \<and> messages (snd (POST_rooms_messages db_general (Some token_A) 20 1 \<lparr>content = ''''\<rparr> 20 20))
       = [\<lparr>m_id = 1, m_room_id = 1, m_user_id = 1, m_content = '''', m_timestamp = 20\<rparr>]"
  by (simp add: POST_rooms_messages_def Depends_authenticated [OF refl token_A_user]
      db_general_eq post_message_def rooms_fetch_one_by_id_def int32_def fetch_one_def messages_insert_def alice_def)

section \<open>The debug route\<close>

text \<open>
  C3. The code at the failing input: once alice has registered, the debug route, which
  asks for no token, answers with her whole row, the stored password hash included.
\<close>

theorem list_users_exposes_password_hash:
  "register empty_db \<lparr>username = ''alice'', password = ''pw1''\<rparr> ''salt'' 0
     = (Inr \<lparr>access_token = token_A, token_type = ''bearer''\<rparr>, db_registered)
   \<and> fst (list_users db_registered)
       = Inr [\<lparr>u_id = 1, u_username = ''alice'', u_hashed_password = Bcrypt ''salt'' ''pw1''\<rparr>]"
  using register_alice
  by (simp add: alice_in_def list_users_def fetch_all_def db_registered_eq alice_def)

section \<open>The timestamp of a response\<close>

text \<open>
  C7. The code at the failing input: the clock reads 20 when the row is inserted and 21
  when the response is built. The response carries the timestamp 21; the stored row,
  and a later listing of the room, carry 20.
\<close>

theorem post_message_response_timestamp_differs:
  "fst (POST_rooms_messages db_general (Some token_A) 20 1 \<lparr>content = ''hi''\<rparr> 20 21)
     = Inr \<lparr>m_id = 1, m_room_id = 1, m_user_id = 1, m_content = ''hi'', m_timestamp = 21\<rparr>
   \<and> messages (snd (POST_rooms_messages db_general (Some token_A) 20 1 \<lparr>content = ''hi''\<rparr> 20 21))
       = [\<lparr>m_id = 1, m_room_id = 1, m_user_id = 1, m_content = ''hi'', m_timestamp = 20\<rparr>]
   \<and> fst (GET_rooms_messages
            (snd (POST_rooms_messages db_general (Some token_A) 20 1 \<lparr>content = ''hi''\<rparr> 20 21))
            (Some token_A) 22 1 tie)
       = Inr [\<lparr>m_id = 1, m_room_id = 1, m_user_id = 1, m_content = ''hi'', m_timestamp = 20\<rparr>]"
  by (simp add: POST_rooms_messages_def GET_rooms_messages_def
      Depends_authenticated [OF refl token_A_user]
      db_general_eq post_message_def list_messages_def rooms_fetch_one_by_id_def fetch_one_def
      fetch_all_def order_by_def messages_insert_def alice_def)

section \<open>Listing the messages of a room\<close>

lemma list_messages_existing_room:
  assumes "room_id \<in> r_id ` set (rooms d)"
  shows "list_messages d room_id current_user tie =
           (Inr (sort_key m_timestamp
                   (sort_key tie (filter (\<lambda>m. m_room_id m = room_id) (messages d)))), d)"
proof -
  from assms obtain room where "fetch_one (\<lambda>r. r_id r = room_id) (rooms d) = Some room"
    by (cases "fetch_one (\<lambda>r. r_id r = room_id) (rooms d)")
       (auto simp: fetch_one_def find_None_image)
  then show ?thesis
    by (simp add: list_messages_def rooms_fetch_one_by_id_def order_by_def fetch_all_def)
qed

text \<open>
  Rows whose keys strictly increase come back as they stand, however the engine read
  them: a sorted list without repeated keys is determined by its elements.
\<close>

lemma order_by_strictly_increasing:
  assumes "sorted_wrt (<) (map col rows)"
  shows "order_by col tie rows = rows"
proof -
  let ?res = "sort_key col (sort_key tie rows)"
  from assms have s: "sorted (map col rows)" and dist: "distinct (map col rows)"
    by (simp_all add: strict_sorted_iff)
  have m: "mset ?res = mset rows" by simp
  then have mm: "mset (map col ?res) = mset (map col rows)" by simp
  from mset_eq_imp_distinct_iff [OF mm] dist have d': "distinct (map col ?res)"
    by blast
  have s': "sorted (map col ?res)" by simp
  from m have e: "set ?res = set rows" by (rule mset_eq_setD)
  from dist have "inj_on col (set rows)" by (simp add: distinct_map)
  with e have i: "inj_on col (set ?res \<union> set rows)" by simp
  from i s' d' s dist e have "?res = rows"
    by (rule map_sorted_distinct_set_unique)
  then show ?thesis by (simp add: order_by_def)
qed

text \<open>
  C6, as amended. For an existing room and an authenticated caller, list-messages
  leaves the store as it is and returns exactly the messages of that room, in
  non-decreasing timestamp order, whatever order the engine gives to equal timestamps.
  The listing is in insertion order whenever the timestamps of the room's messages
  strictly increase in insertion order.
\<close>

theorem list_messages_sorted_by_timestamp:
  assumes "room_id \<in> r_id ` set (rooms d)"
    and "authorization = Some tok"
    and "get_current_user d tok utcnow = Inr current_user"
  shows "\<exists>msgs.
           GET_rooms_messages d authorization utcnow room_id tie = (Inr msgs, d)
           \<and> mset msgs = mset (filter (\<lambda>m. m_room_id m = room_id) (messages d))
           \<and> sorted (map m_timestamp msgs)
           \<and> (sorted_wrt (<) (map m_timestamp (filter (\<lambda>m. m_room_id m = room_id) (messages d)))
                \<longrightarrow> msgs = filter (\<lambda>m. m_room_id m = room_id) (messages d))"
proof -
  let ?room = "filter (\<lambda>m. m_room_id m = room_id) (messages d)"
  have "GET_rooms_messages d authorization utcnow room_id tie
          = (Inr (order_by m_timestamp tie ?room), d)"
    using assms(2,3)
    by (simp add: GET_rooms_messages_def Depends_authenticated order_by_def
          list_messages_existing_room [OF assms(1)])
  moreover have "mset (order_by m_timestamp tie ?room) = mset ?room"
    by (simp add: order_by_def)
  moreover have "sorted (map m_timestamp (order_by m_timestamp tie ?room))"
    by (simp add: order_by_def)
  moreover have "order_by m_timestamp tie ?room = ?room"
    if "sorted_wrt (<) (map m_timestamp ?room)"
    using that by (rule order_by_strictly_increasing)
  ultimately show ?thesis by blast
qed

theorem list_messages_sorted_by_timestamp_witness:
  "1 \<in> r_id ` set (rooms db_later)
   \<and> get_current_user db_later token_A 40 = Inr alice
   \<and> messages db_later = [msg_hi, msg_later]
   \<and> sorted_wrt (<) (map m_timestamp [msg_hi, msg_later])
   \<and> GET_rooms_messages db_later (Some token_A) 40 1 newest_first
       = (Inr [msg_hi, msg_later], db_later)"
proof -
  have r: "1 \<in> r_id ` set (rooms db_later)" by (simp add: db_later_eq)
  have g: "get_current_user db_later token_A 40 = Inr alice"
    by (simp add: token_A_user db_later_eq)
  have m: "messages db_later = [msg_hi, msg_later]" by (simp add: db_later_eq)
  have f: "filter (\<lambda>m. m_room_id m = 1) (messages db_later) = [msg_hi, msg_later]"
    by (simp add: m msg_hi_def msg_later_def)
  have s: "sorted_wrt (<) (map m_timestamp [msg_hi, msg_later])"
    by (simp add: msg_hi_def msg_later_def)
  from list_messages_sorted_by_timestamp [OF r refl g, of newest_first] s
  have "GET_rooms_messages db_later (Some token_A) 40 1 newest_first
          = (Inr [msg_hi, msg_later], db_later)"
    unfolding f by auto
  with r g m s show ?thesis by simp
qed

lemma db_same_eq:
  "db_same = \<lparr>users = [alice], rooms = [\<lparr>r_id = 1, r_name = ''general''\<rparr>],
               messages = [msg_hi, msg_same],
               users_id_seq = 1, rooms_id_seq = 1, messages_id_seq = 2\<rparr>"
  by (simp add: db_same_def msg_same_def POST_rooms_messages_def
      Depends_authenticated [OF refl token_A_user]
      db_hi_eq post_message_def rooms_fetch_one_by_id_def fetch_one_def messages_insert_def
      alice_def)

text \<open>
  C6 as stated fails in two ways. When the clock is set back between two posts, "hi" is
  inserted first with timestamp 20 and "back" second with timestamp 15, and the listing
  returns "back" before "hi" even when the engine reads the rows in table order. When
  "hi" and "same" are inserted within one second, both carry timestamp 20, and an
  engine that reads the newest row first lists "same" before "hi".
\<close>

theorem list_messages_clock_set_back:
  "POST_rooms_messages db_general (Some token_A) 20 1 \<lparr>content = ''hi''\<rparr> 20 20
     = (Inr msg_hi, db_hi)
   \<and> POST_rooms_messages db_hi (Some token_A) 15 1 \<lparr>content = ''back''\<rparr> 15 15
       = (Inr msg_back, db_back)
   \<and> messages db_back = [msg_hi, msg_back]
   \<and> GET_rooms_messages db_back (Some token_A) 40 1 oldest_first
       = (Inr [msg_back, msg_hi], db_back)
   \<and> [msg_back, msg_hi] \<noteq> [msg_hi, msg_back]
   \<and> POST_rooms_messages db_hi (Some token_A) 20 1 \<lparr>content = ''same''\<rparr> 20 20
       = (Inr msg_same, db_same)
   \<and> messages db_same = [msg_hi, msg_same]
   \<and> GET_rooms_messages db_same (Some token_A) 40 1 newest_first
       = (Inr [msg_same, msg_hi], db_same)
   \<and> [msg_same, msg_hi] \<noteq> [msg_hi, msg_same]"
proof -
  have "POST_rooms_messages db_hi (Some token_A) 15 1 \<lparr>content = ''back''\<rparr> 15 15
       = (Inr msg_back, db_back)"
    by (simp add: db_back_def msg_back_def POST_rooms_messages_def
        Depends_authenticated [OF refl token_A_user]
        db_hi_eq post_message_def rooms_fetch_one_by_id_def fetch_one_def messages_insert_def
        alice_def)
  moreover have "messages db_back = [msg_hi, msg_back]" by (simp add: db_back_eq)
  moreover have "GET_rooms_messages db_back (Some token_A) 40 1 oldest_first
                   = (Inr [msg_back, msg_hi], db_back)"
    by (simp add: GET_rooms_messages_def Depends_authenticated [OF refl token_A_user]
        db_back_eq list_messages_def rooms_fetch_one_by_id_def fetch_one_def fetch_all_def
        order_by_def oldest_first_def msg_hi_def msg_back_def)
  moreover have "[msg_back, msg_hi] \<noteq> [msg_hi, msg_back]"
    by (simp add: msg_hi_def msg_back_def)
  moreover have "POST_rooms_messages db_hi (Some token_A) 20 1 \<lparr>content = ''same''\<rparr> 20 20
       = (Inr msg_same, db_same)"
    by (simp add: db_same_def msg_same_def POST_rooms_messages_def
        Depends_authenticated [OF refl token_A_user]
        db_hi_eq post_message_def rooms_fetch_one_by_id_def fetch_one_def messages_insert_def
        alice_def)
  moreover have "messages db_same = [msg_hi, msg_same]" by (simp add: db_same_eq)
  moreover have "GET_rooms_messages db_same (Some token_A) 40 1 newest_first
                   = (Inr [msg_same, msg_hi], db_same)"
    by (simp add: GET_rooms_messages_def Depends_authenticated [OF refl token_A_user]
        db_same_eq list_messages_def rooms_fetch_one_by_id_def fetch_one_def fetch_all_def
        order_by_def newest_first_def msg_hi_def msg_same_def)
  moreover have "[msg_same, msg_hi] \<noteq> [msg_hi, msg_same]"
    by (simp add: msg_hi_def msg_same_def)
  ultimately show ?thesis using post_hi by blast
qed

end
